theory Spec2Isabelle
  imports Main
begin

section \<open>The test harness of Automatic_solver (src/test-harness.js)\<close>

text \<open>
  A shallow embedding of the class \<open>TestHarness\<close>. JavaScript strings are modelled as
  \<open>string\<close>, one \<open>char\<close> per code unit, restricted to the code units U+0000 .. U+00FF.
  What the harness cannot decide by itself (what a child process does, what the clock
  reads, which files exist) is a parameter of the model.
\<close>

subsection \<open>Strings: trim, split, join, decimal numerals\<close>

text \<open>
  \<open>String.prototype.trim\<close> removes white space and line terminators from both ends.
  Among the code units below 256 these are TAB, LF, VT, FF, CR, SPACE and NBSP.
\<close>

definition is_ws :: "char \<Rightarrow> bool" where
  "is_ws c = (c \<in> set [CHR 0x09, CHR 0x0A, CHR 0x0B, CHR 0x0C, CHR 0x0D, CHR 0x20, CHR 0xA0])"

definition trim :: "string \<Rightarrow> string" where
  "trim s = rev (dropWhile is_ws (rev (dropWhile is_ws s)))"

text \<open>
  \<open>s.split('\n')\<close>: the pieces between the newlines; a string with n newlines has
  n + 1 pieces, and the empty string has the single piece \<open>''\<close>.
\<close>

fun split_nl :: "string \<Rightarrow> string list" where
  "split_nl [] = [[]]"
| "split_nl (c # cs) =
     (if c = CHR 0x0A then [] # split_nl cs
      else (case split_nl cs of
              [] \<Rightarrow> [[c]]
            | l # ls \<Rightarrow> (c # l) # ls))"

text \<open>\<open>lines.join('\n')\<close>.\<close>

fun join_nl :: "string list \<Rightarrow> string" where
  "join_nl [] = []"
| "join_nl [l] = l"
| "join_nl (l # m # ls) = l @ [CHR 0x0A] @ join_nl (m # ls)"

text \<open>The decimal numeral a template literal prints for a number.\<close>

definition digit :: "nat \<Rightarrow> char" where
  "digit d = ''0123456789'' ! d"

function showNat :: "nat \<Rightarrow> string" where
  "showNat n = (if n < 10 then [digit n] else showNat (n div 10) @ [digit (n mod 10)])"
  by pat_completeness auto
termination
  by (relation "measure id") auto

declare showNat.simps [simp del]

definition showInt :: "int \<Rightarrow> string" where
  "showInt i = (if i < 0 then ''-'' @ showNat (nat (- i)) else showNat (nat i))"

subsection \<open>generateDiff\<close>

text \<open>
  \<open>lines[i] || ''\<close>: an index past the end reads \<open>undefined\<close>, which is replaced by
  the empty string (as is an empty line, by itself).
\<close>

definition line_at :: "string list \<Rightarrow> nat \<Rightarrow> string" where
  "line_at ls i = (if i < length ls then (if ls ! i = [] then [] else ls ! i) else [])"

text \<open>The body of the \<open>for\<close> loop of generateDiff, \<open>diff\<close> being the array built so far.\<close>

function diff_loop :: "string list \<Rightarrow> string list \<Rightarrow> nat \<Rightarrow> nat \<Rightarrow> string list \<Rightarrow> string list" where
  "diff_loop expectedLines actualLines maxLines i diff =
     (if i < maxLines then
        (let expectedLine = line_at expectedLines i;
             actualLine = line_at actualLines i
         in if expectedLine = actualLine
            then diff_loop expectedLines actualLines maxLines (i + 1)
                   (diff @ [''  '' @ expectedLine])
            else diff_loop expectedLines actualLines maxLines (i + 1)
                   (diff @ [''- '' @ expectedLine, ''+ '' @ actualLine]))
      else diff)"
  by pat_completeness auto
termination
  by (relation "measure (\<lambda>(es, as, maxLines, i, d). maxLines - i)") auto

declare diff_loop.simps [simp del]

definition generateDiff :: "string \<Rightarrow> string \<Rightarrow> string" where
  "generateDiff expected actual =
     (let expectedLines = split_nl expected;
          actualLines = split_nl actual;
          maxLines = max (length expectedLines) (length actualLines)
      in join_nl (diff_loop expectedLines actualLines maxLines 0 []))"

text \<open>
  The diff as the specification words it: both line sequences padded with empty
  strings to the longer length, then one or two lines emitted per index.
\<close>

definition pad_lines :: "nat \<Rightarrow> string list \<Rightarrow> string list" where
  "pad_lines n ls = ls @ replicate (n - length ls) []"

definition emit_lines :: "string \<Rightarrow> string \<Rightarrow> string list" where
  "emit_lines e a = (if e = a then [''  '' @ e] else [''- '' @ e, ''+ '' @ a])"

definition diff_spec :: "string \<Rightarrow> string \<Rightarrow> string" where
  "diff_spec expected actual =
     (let es = split_nl expected;
          as = split_nl actual;
          n = max (length es) (length as)
      in join_nl (concat (map2 emit_lines (pad_lines n es) (pad_lines n as))))"

subsection \<open>Data\<close>

text \<open>
  The objects of the harness as records. Field names carry a short prefix, since the
  source uses the same property names (\<open>input\<close>, \<open>expected\<close>, \<open>passed\<close>, \<open>summary\<close>)
  in several objects: \<open>tc_\<close> a test case of the suite file, \<open>t_\<close> the object returned
  by runSingleTest, \<open>c_\<close> the summary counters, \<open>rs_\<close> the object returned by runTests,
  \<open>d_\<close> an entry of \<open>details\<close>, \<open>rp_\<close> the object returned by generateDiffReport.
  An optional property (\<open>error\<close>, \<open>diff\<close>) is an \<open>option\<close>: \<open>None\<close> when the object has
  no such property.
\<close>

record test_case =
  tc_input :: string
  tc_expected :: string

record test_suite =
  sample :: test_case
  custom :: "test_case list"

record test_result =
  t_testName :: string
  t_input :: string
  t_expected :: string
  t_actual :: string
  t_passed :: bool
  t_error :: "string option"
  t_executionTime :: nat

record counts =
  c_passed :: nat
  c_failed :: nat
  c_total :: nat

record test_results =
  rs_problemId :: string
  rs_language :: string
  rs_timestamp :: nat
  rs_tests :: "test_result list"
  rs_summary :: counts

record detail =
  d_testName :: string
  d_passed :: bool
  d_input :: string
  d_expected :: string
  d_actual :: string
  d_diff :: "string option"
  d_error :: "string option"

record report =
  rp_problemId :: string
  rp_summary :: counts
  rp_details :: "detail list"

subsection \<open>Paths\<close>

text \<open>
  A path is the list of its components; \<open>path.join\<close> appends components,
  \<open>path.dirname\<close> drops the last one, \<open>path.basename(p, ext)\<close> is the last one
  without the extension. Components are taken to be plain names.
\<close>

type_synonym path = "string list"

fun path_string :: "path \<Rightarrow> string" where
  "path_string [] = ''.''"
| "path_string [c] = c"
| "path_string (c # d # cs) = c @ ''/'' @ path_string (d # cs)"

definition dirname :: "path \<Rightarrow> path" where
  "dirname p = butlast p"

definition basename :: "path \<Rightarrow> string \<Rightarrow> string" where
  "basename p ext =
     (case rev p of
        [] \<Rightarrow> []
      | l # _ \<Rightarrow>
          (if length ext < length l \<and> drop (length l - length ext) l = ext
           then take (length l - length ext) l else l))"

subsection \<open>The environment: child processes, clock, files\<close>

text \<open>
  What a spawned child does is the sequence of events it raises on the \<open>ChildProcess\<close>
  object and its streams, in order, each with the time in milliseconds since the
  spawn: data on stdout, data on stderr, \<open>close\<close> with the exit code (\<open>None\<close> for
  \<open>null\<close>, a child ended by a signal), \<open>error\<close> with the message of the operating
  system, and \<open>error\<close> on the stream \<open>child.stdin\<close>: the write of the input has failed
  (\<open>write EPIPE\<close> when the child has gone without taking its input). A child that
  never exits has a trace without \<open>Close\<close> and \<open>Error\<close>.
\<close>

datatype event =
  Stdout string
| Stderr string
| Close "int option"
| Error string
| Stdin_error string

type_synonym trace = "(nat \<times> event) list"

text \<open>
  The world outside the harness is a state \<open>'w\<close> that the harness only passes on:
  \<open>spawn\<close> is given the command, its arguments, the working directory and what is
  written to stdin (\<open>None\<close> when nothing is written and stdin is left open) and answers
  with the trace of the child and the next state; \<open>now\<close> reads the clock; \<open>srcDir\<close> is
  \<open>__dirname\<close>.
\<close>

record 'w env =
  spawn :: "'w \<Rightarrow> string \<Rightarrow> string list \<Rightarrow> string \<Rightarrow> string option \<Rightarrow> trace \<times> 'w"
  now :: "'w \<Rightarrow> nat"
  srcDir :: path

text \<open>
  How a call of an \<open>async\<close> method ends: it returns a value (for a method that can
  throw, \<open>Inl\<close> is the message of the error thrown and \<open>Inr\<close> the value returned); or
  its promise stays pending for ever; or the node process dies of an uncaught
  exception, which no \<open>catch\<close> of the harness sees.
\<close>

datatype 'a completion =
  Pending
| Died string
| Returned 'a

text \<open>
  The files \<open>test-cases.json\<close>: a path with no file reads as ENOENT, a file holds a
  well-formed suite, and writing a file succeeds.
\<close>

type_synonym files = "path \<rightharpoonup> test_suite"

definition enoent :: "path \<Rightarrow> string" where
  "enoent p = ''ENOENT: no such file or directory, open '' @ [CHR 0x27] @ path_string p @ [CHR 0x27]"

text \<open>The constructor: \<open>path.join(__dirname, '..', 'workspace')\<close>.\<close>

definition workspaceDir :: "'w env \<Rightarrow> path" where
  "workspaceDir env = butlast (srcDir env) @ [''workspace'']"

subsection \<open>getSolutionFile, executeCode, compareOutput\<close>

definition extensions :: "(string \<times> string) list" where
  "extensions = [(''javascript'', ''js''), (''python'', ''py''), (''java'', ''java''), (''cpp'', ''cpp'')]"

text \<open>
  \<open>extensions\<close> is an object literal, so \<open>extensions[language]\<close> also finds the members
  it inherits from \<open>Object.prototype\<close>. Each of them is a function or an object, hence
  not replaced by \<open>'js'\<close>, and the template literal prints it as node does.
\<close>

definition native :: "string \<Rightarrow> string" where
  "native name = ''function '' @ name @ ''() { [native code] }''"

definition object_prototype :: "(string \<times> string) list" where
  "object_prototype =
     [(''constructor'', native ''Object''),
      (''__defineGetter__'', native ''__defineGetter__''),
      (''__defineSetter__'', native ''__defineSetter__''),
      (''hasOwnProperty'', native ''hasOwnProperty''),
      (''__lookupGetter__'', native ''__lookupGetter__''),
      (''__lookupSetter__'', native ''__lookupSetter__''),
      (''isPrototypeOf'', native ''isPrototypeOf''),
      (''propertyIsEnumerable'', native ''propertyIsEnumerable''),
      (''toString'', native ''toString''),
      (''valueOf'', native ''valueOf''),
      (''__proto__'', ''[object Object]''),
      (''toLocaleString'', native ''toLocaleString'')]"

text \<open>\<open>extensions[language] || 'js'\<close>; no extension above is the empty string.\<close>

definition getSolutionFile :: "path \<Rightarrow> string \<Rightarrow> path" where
  "getSolutionFile problemDir language =
     (let ext = (case map_of (extensions @ object_prototype) language of
                   Some e \<Rightarrow> e
                 | None \<Rightarrow> ''js'')
      in problemDir @ [''solution.'' @ ext])"

text \<open>The \<open>switch\<close> of executeCode: the command and its arguments, \<open>None\<close> for \<open>default\<close>.\<close>

definition launch :: "path \<Rightarrow> string \<Rightarrow> (string \<times> string list) option" where
  "launch solutionFile language =
     (if language = ''javascript'' then Some (''node'', [path_string solutionFile])
      else if language = ''python'' then Some (''python'', [path_string solutionFile])
      else if language = ''java'' then
        (let className = basename solutionFile ''.java''
         in Some (''java'', [className]))
      else if language = ''cpp'' then
        (let executable = dirname solutionFile @ [''solution'']
         in Some (path_string executable, []))
      else None)"

definition showCode :: "int option \<Rightarrow> string" where
  "showCode code = (case code of None \<Rightarrow> ''null'' | Some c \<Rightarrow> showInt c)"

text \<open>
  The event handlers of executeCode, run over the trace of the child: \<open>out\<close> and \<open>err\<close>
  are the variables \<open>output\<close> and \<open>error\<close>, and \<open>st\<close> is the state of the promise,
  \<open>None\<close> while it is pending. The first \<open>close\<close> or \<open>error\<close> event settles the promise,
  \<open>Inr\<close> when resolved and \<open>Inl\<close> with the message when rejected, and a later
  \<open>resolve\<close> or \<open>reject\<close> changes nothing. No handler reads the time.

  executeCode writes the input to \<open>child.stdin\<close> and registers no listener for the
  \<open>error\<close> event of that stream: node throws such an event as an uncaught exception
  and the process of the harness ends, whatever the state of the promise. The model
  lets the process die in the test of that child, wherever the event stands in the
  trace.
\<close>

fun settle ::
  "trace \<Rightarrow> string \<Rightarrow> string \<Rightarrow> (string + string) option \<Rightarrow> (string + string) completion" where
  "settle [] out err st = (case st of None \<Rightarrow> Pending | Some v \<Rightarrow> Returned v)"
| "settle ((ms, Stdout d) # es) out err st = settle es (out @ d) err st"
| "settle ((ms, Stderr d) # es) out err st = settle es out (err @ d) st"
| "settle ((ms, Close code) # es) out err st =
     settle es out err
       (case st of
          None \<Rightarrow>
            Some (if code \<noteq> Some 0
                  then Inl (''Execution failed with code '' @ showCode code @ '': '' @ err)
                  else Inr out)
        | Some v \<Rightarrow> Some v)"
| "settle ((ms, Error m) # es) out err st =
     settle es out err
       (case st of
          None \<Rightarrow> Some (Inl (''Failed to start process: '' @ m))
        | Some v \<Rightarrow> Some v)"
| "settle ((ms, Stdin_error m) # es) out err st = Died m"

definition executeCode ::
  "'w env \<Rightarrow> 'w \<Rightarrow> path \<Rightarrow> string \<Rightarrow> string \<Rightarrow> (string + string) completion \<times> 'w" where
  "executeCode env w solutionFile language inp =
     (case launch solutionFile language of
        None \<Rightarrow> (Returned (Inl (''Unsupported language: '' @ language)), w)
      | Some (command, args) \<Rightarrow>
          (let (tr, w') = spawn env w command args (path_string (dirname solutionFile))
                            (if inp \<noteq> [] then Some inp else None)
           in (settle tr [] [] None, w')))"

definition compareOutput :: "string \<Rightarrow> string \<Rightarrow> bool" where
  "compareOutput actual expected = (actual = expected)"

subsection \<open>runSingleTest and runTests\<close>

definition runSingleTest ::
  "'w env \<Rightarrow> 'w \<Rightarrow> path \<Rightarrow> string \<Rightarrow> string \<Rightarrow> string \<Rightarrow> string \<Rightarrow> (test_result \<times> 'w) completion" where
  "runSingleTest env w problemDir language inp expected testName =
     (let solutionFile = getSolutionFile problemDir language;
          (res, w') = executeCode env w solutionFile language inp
      in case res of
           Pending \<Rightarrow> Pending
         | Died m \<Rightarrow> Died m
         | Returned (Inr out) \<Rightarrow>
             (let passed = compareOutput (trim out) (trim expected)
              in Returned (\<lparr>t_testName = testName, t_input = inp, t_expected = expected,
                             t_actual = trim out, t_passed = passed, t_error = None,
                             t_executionTime = now env w'\<rparr>, w'))
         | Returned (Inl message) \<Rightarrow>
             Returned (\<lparr>t_testName = testName, t_input = inp, t_expected = expected,
                         t_actual = [], t_passed = False, t_error = Some message,
                         t_executionTime = now env w'\<rparr>, w'))"

text \<open>
  \<open>results.tests.push(r); results.summary.total++; if (r.passed) results.summary.passed++;
  else results.summary.failed++\<close>.
\<close>

definition record_result :: "test_results \<Rightarrow> test_result \<Rightarrow> test_results" where
  "record_result results r =
     (let s = (rs_summary results)\<lparr>c_total := c_total (rs_summary results) + 1\<rparr>
      in results\<lparr>rs_tests := rs_tests results @ [r],
                  rs_summary := (if t_passed r then s\<lparr>c_passed := c_passed s + 1\<rparr>
                                 else s\<lparr>c_failed := c_failed s + 1\<rparr>)\<rparr>)"

text \<open>The \<open>for\<close> loop over \<open>testCases.custom\<close>.\<close>

function custom_loop ::
  "'w env \<Rightarrow> path \<Rightarrow> string \<Rightarrow> test_case list \<Rightarrow> nat \<Rightarrow> test_results \<Rightarrow> 'w \<Rightarrow>
     test_results completion" where
  "custom_loop env problemDir language cases i results w =
     (if i < length cases then
        (let testCase = cases ! i
         in case runSingleTest env w problemDir language (tc_input testCase)
                   (tc_expected testCase) (''custom-'' @ showNat i) of
              Pending \<Rightarrow> Pending
            | Died m \<Rightarrow> Died m
            | Returned (customResult, w') \<Rightarrow>
                custom_loop env problemDir language cases (i + 1)
                  (record_result results customResult) w')
      else Returned results)"
  by pat_completeness auto
termination
  by (relation "measure (\<lambda>(env, problemDir, language, cases, i, results, w). length cases - i)") auto

declare custom_loop.simps [simp del]

text \<open>
  runTests: \<open>Inl\<close> is the error thrown from the \<open>catch\<close>, \<open>Inr\<close> the object returned.
  \<open>timestamp\<close> is kept as the clock reading it is formatted from.
\<close>

definition runTests ::
  "'w env \<Rightarrow> 'w \<Rightarrow> files \<Rightarrow> string \<Rightarrow> string \<Rightarrow> (string + test_results) completion" where
  "runTests env w fs problemId language =
     (let problemDir = workspaceDir env @ [problemId];
          testCasesPath = problemDir @ [''test-cases.json'']
      in case fs testCasesPath of
           None \<Rightarrow> Returned (Inl (''Test execution failed: '' @ enoent testCasesPath))
         | Some testCases \<Rightarrow>
             (let results = \<lparr>rs_problemId = problemId, rs_language = language,
                              rs_timestamp = now env w, rs_tests = [],
                              rs_summary = \<lparr>c_passed = 0, c_failed = 0, c_total = 0\<rparr>\<rparr>
              in case (if tc_input (sample testCases) \<noteq> [] then
                         (case runSingleTest env w problemDir language
                                 (tc_input (sample testCases))
                                 (tc_expected (sample testCases)) ''sample'' of
                            Pending \<Rightarrow> Pending
                          | Died m \<Rightarrow> Died m
                          | Returned (sampleResult, w') \<Rightarrow>
                              Returned (record_result results sampleResult, w'))
                       else Returned (results, w)) of
                   Pending \<Rightarrow> Pending
                 | Died m \<Rightarrow> Died m
                 | Returned (results', w') \<Rightarrow>
                     map_completion Inr
                       (custom_loop env problemDir language (custom testCases) 0 results' w')))"

subsection \<open>addTestCase\<close>

text \<open>\<open>Inl\<close> is the error thrown, \<open>Inr\<close> the suite returned together with the files after the write.\<close>

definition addTestCase ::
  "'w env \<Rightarrow> files \<Rightarrow> string \<Rightarrow> string \<Rightarrow> string \<Rightarrow> string + test_suite \<times> files" where
  "addTestCase env fs problemId inp expected =
     (let problemDir = workspaceDir env @ [problemId];
          testCasesPath = problemDir @ [''test-cases.json'']
      in case fs testCasesPath of
           None \<Rightarrow> Inl (''Failed to add test case: '' @ enoent testCasesPath)
         | Some testCases \<Rightarrow>
             (let testCases' = testCases\<lparr>custom := custom testCases @
                                   [\<lparr>tc_input = inp, tc_expected = expected\<rparr>]\<rparr>
              in Inr (testCases', fs(testCasesPath \<mapsto> testCases'))))"

subsection \<open>generateDiffReport\<close>

text \<open>
  One entry of \<open>details\<close>. \<open>if (test.error)\<close> holds for a property that is present and
  not the empty string.
\<close>

definition detail_of :: "test_result \<Rightarrow> detail" where
  "detail_of test =
     \<lparr>d_testName = t_testName test, d_passed = t_passed test, d_input = t_input test,
      d_expected = t_expected test, d_actual = t_actual test,
      d_diff = (if \<not> t_passed test
                then Some (generateDiff (t_expected test) (t_actual test)) else None),
      d_error = (case t_error test of
                   None \<Rightarrow> None
                 | Some m \<Rightarrow> (if m \<noteq> [] then Some m else None))\<rparr>"

definition generateDiffReport :: "test_results \<Rightarrow> report" where
  "generateDiffReport testResults =
     \<lparr>rp_problemId = rs_problemId testResults,
      rp_summary = rs_summary testResults,
      rp_details = map detail_of (rs_tests testResults)\<rparr>"

subsection \<open>The route \<open>POST /api/problems/:id/test\<close> (src/index.js)\<close>

text \<open>
  The only caller of generateDiffReport: it reports the results of runTests; an error
  thrown by runTests is answered with status 400 and the message (\<open>Inl\<close>).
\<close>

definition post_test ::
  "'w env \<Rightarrow> 'w \<Rightarrow> files \<Rightarrow> string \<Rightarrow> string \<Rightarrow> (string + report) completion" where
  "post_test env w fs problemId language =
     (case runTests env w fs problemId language of
        Pending \<Rightarrow> Pending
      | Died m \<Rightarrow> Died m
      | Returned (Inl message) \<Rightarrow> Returned (Inl message)
      | Returned (Inr results) \<Rightarrow> Returned (Inr (generateDiffReport results)))"

subsection \<open>Notions used to state the properties\<close>


text \<open>The file that holds the suite of a problem.\<close>

definition testCasesPath :: "'w env \<Rightarrow> string \<Rightarrow> path" where
  "testCasesPath env problemId = workspaceDir env @ [problemId] @ [''test-cases.json'']"

text \<open>
  The event that ends a child, with its time: the first \<open>close\<close> or \<open>error\<close> of the
  trace; what the child has written to stdout until then; and whether the write to
  its stdin fails.
\<close>

fun exit_event :: "trace \<Rightarrow> (nat \<times> event) option" where
  "exit_event [] = None"
| "exit_event ((ms, Stdout d) # es) = exit_event es"
| "exit_event ((ms, Stderr d) # es) = exit_event es"
| "exit_event ((ms, Close code) # es) = Some (ms, Close code)"
| "exit_event ((ms, Error m) # es) = Some (ms, Error m)"
| "exit_event ((ms, Stdin_error m) # es) = exit_event es"

fun stdout_before_exit :: "trace \<Rightarrow> string" where
  "stdout_before_exit [] = []"
| "stdout_before_exit ((ms, Stdout d) # es) = d @ stdout_before_exit es"
| "stdout_before_exit ((ms, Stderr d) # es) = stdout_before_exit es"
| "stdout_before_exit ((ms, Close code) # es) = []"
| "stdout_before_exit ((ms, Error m) # es) = []"
| "stdout_before_exit ((ms, Stdin_error m) # es) = stdout_before_exit es"

fun stdin_fails :: "trace \<Rightarrow> bool" where
  "stdin_fails [] = False"
| "stdin_fails ((ms, Stdin_error m) # es) = True"
| "stdin_fails ((ms, e) # es) = stdin_fails es"

text \<open>
  The child that runSingleTest starts for a test case, with the state of the world
  after the spawn; \<open>None\<close> when the language has no case in the \<open>switch\<close> and nothing is
  spawned.
\<close>

definition child_of :: "'w env \<Rightarrow> 'w \<Rightarrow> path \<Rightarrow> string \<Rightarrow> string \<Rightarrow> (trace \<times> 'w) option" where
  "child_of env w problemDir language inp =
     (let solutionFile = getSolutionFile problemDir language
      in case launch solutionFile language of
           None \<Rightarrow> None
         | Some (command, args) \<Rightarrow>
             Some (spawn env w command args (path_string (dirname solutionFile))
                     (if inp \<noteq> [] then Some inp else None)))"

text \<open>
  An execution that fails with an error: the language is not supported, the child
  could not be started, or it exits with a code other than 0.
\<close>

definition execution_fails :: "'w env \<Rightarrow> 'w \<Rightarrow> path \<Rightarrow> string \<Rightarrow> string \<Rightarrow> bool" where
  "execution_fails env w problemDir language inp =
     (case child_of env w problemDir language inp of
        None \<Rightarrow> True
      | Some (tr, w') \<Rightarrow>
          (case exit_event tr of
             None \<Rightarrow> False
           | Some (ms, Error m) \<Rightarrow> True
           | Some (ms, Close code) \<Rightarrow> code \<noteq> Some 0
           | Some (ms, _) \<Rightarrow> False))"

text \<open>
  The states of the world in which the tests of a run start, given the inputs of the
  tests in order: each test starts where the spawn of the one before has left the
  world (where the one before has started, when it spawned nothing).
\<close>

definition next_world :: "'w env \<Rightarrow> 'w \<Rightarrow> path \<Rightarrow> string \<Rightarrow> string \<Rightarrow> 'w" where
  "next_world env w problemDir language inp =
     (case child_of env w problemDir language inp of
        None \<Rightarrow> w
      | Some (tr, w') \<Rightarrow> w')"


text \<open>
  An outcome reflects the execution of its test case, started in state \<open>w\<close>: when the
  execution fails with an error, the outcome has failed, has an error and no output;
  otherwise it has no error, its output is the trimmed stdout of the child, and it
  has passed exactly when that is the trimmed expected output.
\<close>

definition reflects :: "'w env \<Rightarrow> path \<Rightarrow> string \<Rightarrow> 'w \<Rightarrow> test_result \<Rightarrow> bool" where
  "reflects env problemDir language w t =
     (if execution_fails env w problemDir language (t_input t)
      then \<not> t_passed t \<and> t_error t \<noteq> None \<and> t_actual t = []
      else t_error t = None \<and>
           (case child_of env w problemDir language (t_input t) of
              None \<Rightarrow> False
            | Some (tr, w') \<Rightarrow> t_actual t = trim (stdout_before_exit tr)) \<and>
           t_passed t = (t_actual t = trim (t_expected t)))"

text \<open>
  The comparison policy in the words of the specification: \<open>t\<close> is \<open>s\<close> without its
  leading and trailing white space when \<open>s\<close> is \<open>t\<close> between two runs of white space
  and \<open>t\<close> neither starts nor ends with white space; two strings are equal after
  trimming when they have the same such \<open>t\<close>. No character inside \<open>t\<close> is changed.
\<close>

definition trimmed_to :: "string \<Rightarrow> string \<Rightarrow> bool" where
  "trimmed_to s t =
     ((\<exists>pre suf. s = pre @ t @ suf \<and> list_all is_ws pre \<and> list_all is_ws suf) \<and>
      (t = [] \<or> \<not> is_ws (hd t) \<and> \<not> is_ws (last t)))"

definition equal_after_trimming :: "string \<Rightarrow> string \<Rightarrow> bool" where
  "equal_after_trimming a e = (\<exists>t. trimmed_to a t \<and> trimmed_to e t)"

text \<open>
  The order of execution in the words of the specification: the sample case first,
  under the name \<open>sample\<close>, when its input is not empty, then the custom cases in stored
  order under the names \<open>custom-0\<close>, \<open>custom-1\<close>, ...
\<close>

definition schedule :: "test_suite \<Rightarrow> (string \<times> test_case) list" where
  "schedule s =
     (if tc_input (sample s) \<noteq> [] then [(''sample'', sample s)] else []) @
     map (\<lambda>i. (''custom-'' @ showNat i, custom s ! i)) [0..<length (custom s)]"

definition named_case :: "test_result \<Rightarrow> string \<times> test_case" where
  "named_case t = (t_testName t, \<lparr>tc_input = t_input t, tc_expected = t_expected t\<rparr>)"

text \<open>The counters agree with a list of results.\<close>

definition counts_of :: "test_result list \<Rightarrow> counts" where
  "counts_of ts =
     \<lparr>c_passed = length (filter t_passed ts),
      c_failed = length (filter (\<lambda>t. \<not> t_passed t) ts),
      c_total = length ts\<rparr>"

text \<open>
  What an object returned by runSingleTest looks like: with an error it has failed and
  has no output; without one it has passed exactly when its output is the trimmed
  expected output.
\<close>

definition sound_result :: "test_result \<Rightarrow> bool" where
  "sound_result t =
     (case t_error t of
        None \<Rightarrow> t_passed t = (t_actual t = trim (t_expected t))
      | Some m \<Rightarrow> m \<noteq> [] \<and> \<not> t_passed t \<and> t_actual t = [])"

subsection \<open>Example worlds\<close>

text \<open>
  A world in which the n-th spawned child has the n-th trace of a list (and any later
  child never raises an event); the state counts the spawns and is the clock.
\<close>

definition scripted :: "trace list \<Rightarrow> nat env" where
  "scripted trs =
     \<lparr>spawn = (\<lambda>w command args cwd inp. (if w < length trs then trs ! w else [], w + 1)),
      now = (\<lambda>w. w),
      srcDir = [''app'', ''src'']\<rparr>"

definition two_sum :: test_suite where
  "two_sum =
     \<lparr>sample = \<lparr>tc_input = ''2 7 11 15\<newline>9'', tc_expected = ''0 1''\<rparr>,
      custom = [\<lparr>tc_input = ''3 3\<newline>6'', tc_expected = ''0 1''\<rparr>]\<rparr>"

definition two_sum_files :: files where
  "two_sum_files = [[''app'', ''workspace'', ''two-sum'', ''test-cases.json''] \<mapsto> two_sum]"

text \<open>
  Worlds built from it: a child that prints the expected output and exits with code 0
  after an hour; one passing and one mismatching child; one passing child and one that
  exits with code 1; a child that exits with code 1 and one that cannot be started; a
  first child that never exits; a first child that exits with code 1 without taking
  its input.
\<close>

definition hour_world :: "nat env" where
  "hour_world = scripted [[(0, Stdout ''0 1\<newline>''), (3600000, Close (Some 0))]]"

definition mixed_world :: "nat env" where
  "mixed_world = scripted [[(0, Stdout ''0 1\<newline>''), (40, Close (Some 0))],
                           [(0, Stdout ''1 0\<newline>''), (35, Close (Some 0))]]"

definition flaky_world :: "nat env" where
  "flaky_world = scripted [[(0, Stdout ''0 1\<newline>''), (40, Close (Some 0))],
                           [(3, Stderr ''Traceback''), (9, Close (Some 1))]]"

definition failing_world :: "nat env" where
  "failing_world = scripted [[(0, Stdout ''0 1\<newline>''), (1, Stderr ''boom''), (2, Close (Some 1))],
                             [(0, Error ''spawn node ENOENT'')]]"


definition deaf_world :: "nat env" where
  "deaf_world = scripted [[(2, Stdin_error ''write EPIPE''), (3, Close (Some 1))],
                          [(0, Stdout ''0 1\<newline>''), (5, Close (Some 0))]]"


section \<open>Properties\<close>

subsection \<open>The child process and the promise of executeCode\<close>

lemma settle_died: "stdin_fails tr \<Longrightarrow> \<exists>m. settle tr out err st = Died m"
  by (induction tr out err st rule: settle.induct) auto

lemma settle_settled: "\<not> stdin_fails tr \<Longrightarrow> settle tr out err (Some v) = Returned v"
  by (induction tr out err "Some v" rule: settle.induct) auto

lemma settle_pending:
  "\<not> stdin_fails tr \<Longrightarrow> exit_event tr = None \<Longrightarrow> settle tr out err None = Pending"
  by (induction tr out err "None :: (string + string) option" rule: settle.induct) auto

lemma settle_exit_zero:
  "\<not> stdin_fails tr \<Longrightarrow> exit_event tr = Some (ms, Close (Some 0)) \<Longrightarrow>
     settle tr out err None = Returned (Inr (out @ stdout_before_exit tr))"
  by (induction tr out err "None :: (string + string) option" rule: settle.induct)
     (auto simp: settle_settled)

lemma settle_exit_error:
  "\<not> stdin_fails tr \<Longrightarrow> exit_event tr = Some (ms, Error m) \<Longrightarrow>
     settle tr out err None = Returned (Inl (''Failed to start process: '' @ m))"
  by (induction tr out err "None :: (string + string) option" rule: settle.induct)
     (auto simp: settle_settled)

lemma settle_exit_nonzero:
  "\<not> stdin_fails tr \<Longrightarrow> exit_event tr = Some (ms, Close code) \<Longrightarrow> code \<noteq> Some 0 \<Longrightarrow>
     \<exists>m. m \<noteq> [] \<and> settle tr out err None = Returned (Inl m)"
  by (induction tr out err "None :: (string + string) option" rule: settle.induct)
     (auto simp: settle_settled)

lemma exit_event_kind:
  "exit_event tr = Some (ms, e) \<Longrightarrow> (\<exists>code. e = Close code) \<or> (\<exists>m. e = Error m)"
  by (induction tr rule: exit_event.induct) auto

text \<open>What a settled promise says about the child.\<close>

lemma settle_Returned:
  assumes "settle tr out err None = Returned v"
  shows "\<not> stdin_fails tr \<and>
         (\<exists>ms e. exit_event tr = Some (ms, e) \<and>
            (case e of
               Close code \<Rightarrow>
                 (if code = Some 0 then v = Inr (out @ stdout_before_exit tr)
                  else \<exists>m. m \<noteq> [] \<and> v = Inl m)
             | Error m \<Rightarrow> v = Inl (''Failed to start process: '' @ m)
             | _ \<Rightarrow> False))"
proof -
  from assms settle_died [of tr out err None] have clean: "\<not> stdin_fails tr" by auto
  with assms settle_pending [of tr out err] obtain ms e where ex: "exit_event tr = Some (ms, e)"
    by (cases "exit_event tr") auto
  from exit_event_kind [OF ex] show ?thesis
  proof
    assume "\<exists>code. e = Close code"
    then obtain code where e: "e = Close code" by blast
    show ?thesis
    proof (cases "code = Some 0")
      case True
      with settle_exit_zero [OF clean, of ms out err] ex e assms clean show ?thesis by simp
    next
      case False
      with settle_exit_nonzero [OF clean, of ms code out err] ex e assms clean show ?thesis by auto
    qed
  next
    assume "\<exists>m. e = Error m"
    then obtain m where e: "e = Error m" by blast
    with settle_exit_error [OF clean, of ms m out err] ex assms clean show ?thesis by simp
  qed
qed

lemma executeCode_child:
  "executeCode env w (getSolutionFile problemDir language) language inp =
     (case child_of env w problemDir language inp of
        None \<Rightarrow> (Returned (Inl (''Unsupported language: '' @ language)), w)
      | Some (tr, w') \<Rightarrow> (settle tr [] [] None, w'))"
  by (simp add: executeCode_def child_of_def Let_def split: option.splits prod.splits)



lemma runSingleTest_child:
  "runSingleTest env w problemDir language inp expected testName =
     (case child_of env w problemDir language inp of
        None \<Rightarrow>
          Returned (\<lparr>t_testName = testName, t_input = inp, t_expected = expected,
                      t_actual = [], t_passed = False,
                      t_error = Some (''Unsupported language: '' @ language),
                      t_executionTime = now env w\<rparr>, w)
      | Some (tr, w') \<Rightarrow>
          (case settle tr [] [] None of
             Pending \<Rightarrow> Pending
           | Died m \<Rightarrow> Died m
           | Returned (Inr out) \<Rightarrow>
               Returned (\<lparr>t_testName = testName, t_input = inp, t_expected = expected,
                           t_actual = trim out, t_passed = (trim out = trim expected),
                           t_error = None, t_executionTime = now env w'\<rparr>, w')
           | Returned (Inl message) \<Rightarrow>
               Returned (\<lparr>t_testName = testName, t_input = inp, t_expected = expected,
                           t_actual = [], t_passed = False, t_error = Some message,
                           t_executionTime = now env w'\<rparr>, w')))"
  by (simp add: runSingleTest_def executeCode_child compareOutput_def Let_def
           split: option.splits prod.splits sum.splits completion.splits)

lemma runSingleTest_sound:
  assumes "runSingleTest env w problemDir language inp expected testName = Returned (t, w')"
  shows "sound_result t"
proof (cases "child_of env w problemDir language inp")
  case None
  with assms show ?thesis by (auto simp: runSingleTest_child sound_result_def)
next
  case (Some c)
  obtain tr w'' where c: "c = (tr, w'')" by (cases c)
  from assms Some c obtain v where v: "settle tr [] [] None = Returned v"
    by (auto simp: runSingleTest_child split: completion.splits)
  from settle_Returned [OF v] obtain ms e where
    kind: "(case e of
               Close code \<Rightarrow>
                 (if code = Some 0 then v = Inr ([] @ stdout_before_exit tr)
                  else \<exists>m. m \<noteq> [] \<and> v = Inl m)
             | Error m \<Rightarrow> v = Inl (''Failed to start process: '' @ m)
             | _ \<Rightarrow> False)"
    by blast
  then have "\<forall>m. v = Inl m \<longrightarrow> m \<noteq> []"
    by (cases e) (auto split: if_splits)
  with assms Some c v show ?thesis
    by (auto simp: runSingleTest_child sound_result_def split: sum.splits)
qed

lemma runSingleTest_named:
  "runSingleTest env w problemDir language inp expected testName = Returned (t, w') \<Longrightarrow>
     named_case t = (testName, \<lparr>tc_input = inp, tc_expected = expected\<rparr>)"
  by (auto simp: runSingleTest_child named_case_def
           split: option.splits prod.splits sum.splits completion.splits)

text \<open>The outcome of a test says what its child did, and the next test starts after its spawn.\<close>

lemma runSingleTest_reflects:
  assumes "runSingleTest env w problemDir language inp expected testName = Returned (t, w')"
  shows "reflects env problemDir language w t \<and> w' = next_world env w problemDir language inp"
proof (cases "child_of env w problemDir language inp")
  case None
  with assms show ?thesis
    by (auto simp: runSingleTest_child reflects_def execution_fails_def next_world_def)
next
  case (Some c)
  obtain tr w'' where c: "c = (tr, w'')" by (cases c)
  from assms Some c obtain v where v: "settle tr [] [] None = Returned v"
    by (auto simp: runSingleTest_child split: completion.splits)
  from settle_Returned [OF v] obtain ms e where ex: "exit_event tr = Some (ms, e)"
    and kind: "(case e of
               Close code \<Rightarrow>
                 (if code = Some 0 then v = Inr ([] @ stdout_before_exit tr)
                  else \<exists>m. m \<noteq> [] \<and> v = Inl m)
             | Error m \<Rightarrow> v = Inl (''Failed to start process: '' @ m)
             | _ \<Rightarrow> False)"
    by blast
  from assms Some c v ex kind show ?thesis
    by (cases e)
       (auto simp: runSingleTest_child reflects_def execution_fails_def next_world_def
             split: sum.splits if_splits)
qed



subsection \<open>The loop over the custom cases\<close>

lemma record_result_tests [simp]: "rs_tests (record_result results r) = rs_tests results @ [r]"
  by (simp add: record_result_def Let_def)

lemma record_result_counts:
  "rs_summary results = counts_of (rs_tests results) \<Longrightarrow>
     rs_summary (record_result results r) = counts_of (rs_tests (record_result results r))"
  by (simp add: record_result_def counts_of_def Let_def)

text \<open>One turn of the loop that has returned.\<close>

lemma custom_loop_step:
  assumes "custom_loop env problemDir language cases i results w = Returned r"
    and "i < length cases"
  obtains t w' where
    "runSingleTest env w problemDir language (tc_input (cases ! i))
       (tc_expected (cases ! i)) (''custom-'' @ showNat i) = Returned (t, w')"
    "custom_loop env problemDir language cases (i + 1) (record_result results t) w' = Returned r"
  using assms
  by (auto simp: custom_loop.simps [of _ _ _ cases i] Let_def
           split: completion.splits prod.splits)

lemma custom_loop_done:
  "\<not> i < length cases \<Longrightarrow>
     custom_loop env problemDir language cases i results w = Returned results"
  by (simp add: custom_loop.simps [of _ _ _ cases i])

lemma custom_loop_tests:
  assumes "custom_loop env problemDir language cases i results w = Returned r"
  shows "\<exists>new. rs_tests r = rs_tests results @ new \<and>
           map named_case new = map (\<lambda>j. (''custom-'' @ showNat j, cases ! j)) [i..<length cases]"
  using assms
proof (induction env problemDir language cases i results w rule: custom_loop.induct)
  case (1 env problemDir language cases i results w)
  show ?case
  proof (cases "i < length cases")
    case False
    with "1.prems" show ?thesis by (simp add: custom_loop_done)
  next
    case True
    then have upt: "[i..<length cases] = i # [i + 1..<length cases]"
      by (simp add: upt_conv_Cons)
    from "1.prems" True obtain t w' where
      step: "runSingleTest env w problemDir language (tc_input (cases ! i))
               (tc_expected (cases ! i)) (''custom-'' @ showNat i) = Returned (t, w')"
      and rest: "custom_loop env problemDir language cases (i + 1) (record_result results t) w' =
                   Returned r"
      by (rule custom_loop_step)
    from "1.IH" [OF True refl step refl rest]
    obtain new where new: "rs_tests r = rs_tests (record_result results t) @ new"
      "map named_case new = map (\<lambda>j. (''custom-'' @ showNat j, cases ! j)) [i + 1..<length cases]"
      by auto
    have "rs_tests r = rs_tests results @ (t # new)"
      using new(1) by simp
    moreover have "map named_case (t # new) =
        map (\<lambda>j. (''custom-'' @ showNat j, cases ! j)) [i..<length cases]"
      using new(2) runSingleTest_named [OF step] upt by simp
    ultimately show ?thesis by blast
  qed
qed

text \<open>A property of every object returned by runSingleTest holds for all results of the loop.\<close>

lemma custom_loop_all:
  assumes "custom_loop env problemDir language cases i results w = Returned r"
    and "list_all P (rs_tests results)"
    and "\<And>w inp expected testName t w'.
           runSingleTest env w problemDir language inp expected testName = Returned (t, w') \<Longrightarrow> P t"
  shows "list_all P (rs_tests r)"
  using assms
proof (induction env problemDir language cases i results w rule: custom_loop.induct)
  case (1 env problemDir language cases i results w)
  show ?case
  proof (cases "i < length cases")
    case False
    with "1.prems"(1,2) show ?thesis by (simp add: custom_loop_done)
  next
    case True
    from "1.prems"(1) True obtain t w' where
      step: "runSingleTest env w problemDir language (tc_input (cases ! i))
               (tc_expected (cases ! i)) (''custom-'' @ showNat i) = Returned (t, w')"
      and rest: "custom_loop env problemDir language cases (i + 1) (record_result results t) w' =
                   Returned r"
      by (rule custom_loop_step)
    have "list_all P (rs_tests (record_result results t))"
      using "1.prems"(2) "1.prems"(3) [OF step] by simp
    from "1.IH" [OF True refl step refl rest this "1.prems"(3)] show ?thesis by simp
  qed
qed

lemma custom_loop_counts:
  assumes "custom_loop env problemDir language cases i results w = Returned r"
    and "rs_summary results = counts_of (rs_tests results)"
  shows "rs_summary r = counts_of (rs_tests r)"
  using assms
proof (induction env problemDir language cases i results w rule: custom_loop.induct)
  case (1 env problemDir language cases i results w)
  show ?case
  proof (cases "i < length cases")
    case False
    with "1.prems" show ?thesis by (simp add: custom_loop_done)
  next
    case True
    from "1.prems"(1) True obtain t w' where
      step: "runSingleTest env w problemDir language (tc_input (cases ! i))
               (tc_expected (cases ! i)) (''custom-'' @ showNat i) = Returned (t, w')"
      and rest: "custom_loop env problemDir language cases (i + 1) (record_result results t) w' =
                   Returned r"
      by (rule custom_loop_step)
    from "1.IH" [OF True refl step refl rest] record_result_counts [OF "1.prems"(2)]
    show ?thesis by simp
  qed
qed






subsection \<open>The results of a run\<close>

lemma map_completion_Returned:
  "map_completion f c = Returned y \<longleftrightarrow> (\<exists>x. c = Returned x \<and> y = f x)"
  by (cases c) auto

lemma testCasesPath_eq: "workspaceDir env @ [problemId] @ [''test-cases.json''] = testCasesPath env problemId"
  by (simp add: testCasesPath_def)

lemma runTests_found:
  assumes "fs (testCasesPath env problemId) = Some suite"
  shows "runTests env w fs problemId language =
     (let problemDir = workspaceDir env @ [problemId];
          results = \<lparr>rs_problemId = problemId, rs_language = language,
                      rs_timestamp = now env w, rs_tests = [],
                      rs_summary = \<lparr>c_passed = 0, c_failed = 0, c_total = 0\<rparr>\<rparr>
      in if tc_input (sample suite) \<noteq> [] then
           (case runSingleTest env w problemDir language (tc_input (sample suite))
                   (tc_expected (sample suite)) ''sample'' of
              Pending \<Rightarrow> Pending
            | Died m \<Rightarrow> Died m
            | Returned (sampleResult, w') \<Rightarrow>
                map_completion Inr (custom_loop env problemDir language (custom suite) 0
                                      (record_result results sampleResult) w'))
         else map_completion Inr (custom_loop env problemDir language (custom suite) 0 results w))"
  using assms
  by (simp add: runTests_def testCasesPath_def Let_def split: completion.splits prod.splits)

lemma runTests_Inr_found:
  "runTests env w fs problemId language = Returned (Inr r) \<Longrightarrow>
     \<exists>suite. fs (testCasesPath env problemId) = Some suite"
  by (cases "fs (testCasesPath env problemId)") (auto simp: runTests_def testCasesPath_def Let_def)

text \<open>The two ways a run returns results: without and with the sample test.\<close>

lemma runTests_cases:
  assumes found: "fs (testCasesPath env problemId) = Some suite"
    and run: "runTests env w fs problemId language = Returned (Inr r)"
  obtains (no_sample) "tc_input (sample suite) = []"
      "custom_loop env (workspaceDir env @ [problemId]) language (custom suite) 0
         \<lparr>rs_problemId = problemId, rs_language = language,
           rs_timestamp = now env w, rs_tests = [],
           rs_summary = \<lparr>c_passed = 0, c_failed = 0, c_total = 0\<rparr>\<rparr> w = Returned r"
    | (with_sample) t w' where "tc_input (sample suite) \<noteq> []"
      "runSingleTest env w (workspaceDir env @ [problemId]) language (tc_input (sample suite))
         (tc_expected (sample suite)) ''sample'' = Returned (t, w')"
      "custom_loop env (workspaceDir env @ [problemId]) language (custom suite) 0
         (record_result \<lparr>rs_problemId = problemId, rs_language = language,
           rs_timestamp = now env w, rs_tests = [],
           rs_summary = \<lparr>c_passed = 0, c_failed = 0, c_total = 0\<rparr>\<rparr> t) w' = Returned r"
proof (cases "tc_input (sample suite) \<noteq> []")
  case False
  with run have "custom_loop env (workspaceDir env @ [problemId]) language (custom suite) 0
         \<lparr>rs_problemId = problemId, rs_language = language,
           rs_timestamp = now env w, rs_tests = [],
           rs_summary = \<lparr>c_passed = 0, c_failed = 0, c_total = 0\<rparr>\<rparr> w = Returned r"
    by (auto simp: runTests_found [where fs = fs and w = w and language = language, OF found]
          Let_def map_completion_Returned)
  with False show ?thesis by (auto intro: no_sample)
next
  case True
  with run obtain t w' where
      "runSingleTest env w (workspaceDir env @ [problemId]) language (tc_input (sample suite))
         (tc_expected (sample suite)) ''sample'' = Returned (t, w')"
      "custom_loop env (workspaceDir env @ [problemId]) language (custom suite) 0
         (record_result \<lparr>rs_problemId = problemId, rs_language = language,
           rs_timestamp = now env w, rs_tests = [],
           rs_summary = \<lparr>c_passed = 0, c_failed = 0, c_total = 0\<rparr>\<rparr> t) w' = Returned r"
    by (auto simp: runTests_found [where fs = fs and w = w and language = language, OF found]
          Let_def map_completion_Returned split: completion.splits prod.splits)
  with True show ?thesis by (auto intro: with_sample)
qed


lemma runTests_results:
  assumes found: "fs (testCasesPath env problemId) = Some suite"
    and run: "runTests env w fs problemId language = Returned (Inr r)"
    and P: "\<And>w inp expected testName t w'.
           runSingleTest env w (workspaceDir env @ [problemId]) language inp expected testName =
             Returned (t, w') \<Longrightarrow> P t"
  shows "map named_case (rs_tests r) = schedule suite \<and> list_all P (rs_tests r) \<and>
         rs_summary r = counts_of (rs_tests r)"
proof -
  let ?dir = "workspaceDir env @ [problemId]"
  let ?r0 = "\<lparr>rs_problemId = problemId, rs_language = language,
              rs_timestamp = now env w, rs_tests = [],
              rs_summary = \<lparr>c_passed = 0, c_failed = 0, c_total = 0\<rparr>\<rparr>"
  have r0: "rs_summary ?r0 = counts_of (rs_tests ?r0)"
    by (simp add: counts_of_def)
  from found run show ?thesis
  proof (cases rule: runTests_cases)
    case no_sample
    note loop = no_sample(2)
    have "list_all P (rs_tests ?r0)" by simp
    from custom_loop_counts [OF loop r0] custom_loop_tests [OF loop]
      custom_loop_all [of env ?dir language "custom suite" 0 ?r0 w r P, OF loop this P]
      no_sample(1)
    show ?thesis by (auto simp: schedule_def)
  next
    case (with_sample t w')
    note step = with_sample(2) and loop = with_sample(3)
    have "list_all P (rs_tests (record_result ?r0 t))"
      using P [OF step] by simp
    from custom_loop_counts [OF loop record_result_counts [OF r0]] custom_loop_tests [OF loop]
      custom_loop_all [of env ?dir language "custom suite" 0 "record_result ?r0 t" w' r P,
        OF loop this P]
      with_sample(1) runSingleTest_named [OF step] P [OF step]
    show ?thesis by (auto simp: schedule_def)
  qed
qed




subsection \<open>The loop of generateDiff\<close>

lemma diff_loop_eq:
  "diff_loop es as n i acc =
     acc @ concat (map (\<lambda>j. emit_lines (line_at es j) (line_at as j)) [i..<n])"
proof (induction es as n i acc rule: diff_loop.induct)
  case (1 es as n i acc)
  show ?case
  proof (cases "i < n")
    case True
    then have upt: "[i..<n] = i # [i + 1..<n]"
      by (simp add: upt_conv_Cons)
    show ?thesis
    proof (cases "line_at es i = line_at as i")
      case same: True
      from "1.IH"(1) [OF True refl refl same] True same upt show ?thesis
        by (simp add: emit_lines_def diff_loop.simps [of es as n i acc])
    next
      case differ: False
      from "1.IH"(2) [OF True refl refl differ] True differ upt show ?thesis
        by (simp add: emit_lines_def diff_loop.simps [of es as n i acc])
    qed
  next
    case False
    then show ?thesis by (simp add: diff_loop.simps [of es as n i acc])
  qed
qed

lemma length_pad_lines: "length ls \<le> n \<Longrightarrow> length (pad_lines n ls) = n"
  by (simp add: pad_lines_def)

lemma pad_lines_nth: "i < n \<Longrightarrow> length ls \<le> n \<Longrightarrow> pad_lines n ls ! i = line_at ls i"
  by (simp add: pad_lines_def line_at_def nth_append)

lemma map2_pad_lines:
  assumes "length es \<le> n" "length as \<le> n"
  shows "map2 emit_lines (pad_lines n es) (pad_lines n as) =
         map (\<lambda>j. emit_lines (line_at es j) (line_at as j)) [0..<n]"
  using assms
  by (simp add: list_eq_iff_nth_eq length_pad_lines pad_lines_nth)

subsection \<open>Trimming\<close>

lemma dropWhile_ws_append:
  "list_all is_ws pre \<Longrightarrow> dropWhile is_ws (pre @ xs) = dropWhile is_ws xs"
  by (induction pre) auto

lemma dropWhile_ws_all: "list_all is_ws xs \<Longrightarrow> dropWhile is_ws xs = []"
  by (induction xs) auto

lemma trimmed_to_trim: "trimmed_to s (trim s)"
proof -
  let ?a = "dropWhile is_ws s"
  let ?pre = "takeWhile is_ws s"
  let ?suf = "rev (takeWhile is_ws (rev ?a))"
  have "?a = rev (dropWhile is_ws (rev ?a)) @ rev (takeWhile is_ws (rev ?a))"
    by (metis rev_append rev_rev_ident takeWhile_dropWhile_id)
  then have a: "?a = trim s @ ?suf" by (simp add: trim_def)
  have "s = ?pre @ ?a" by simp
  with a have s: "s = ?pre @ trim s @ ?suf" by metis
  have pre: "list_all is_ws ?pre"
    by (simp add: list_all_iff) (meson set_takeWhileD)
  have suf: "list_all is_ws ?suf"
    by (simp add: list_all_iff) (meson set_takeWhileD)
  have ends: "trim s = [] \<or> \<not> is_ws (hd (trim s)) \<and> \<not> is_ws (last (trim s))"
  proof (cases "trim s = []")
    case True then show ?thesis by simp
  next
    case False
    then have ne: "dropWhile is_ws (rev ?a) \<noteq> []" by (simp add: trim_def)
    then have l: "\<not> is_ws (hd (dropWhile is_ws (rev ?a)))" by (rule hd_dropWhile)
    have "last (trim s) = hd (dropWhile is_ws (rev ?a))"
      using ne by (simp add: trim_def last_rev)
    with l have last: "\<not> is_ws (last (trim s))" by simp
    have "?a = [] \<Longrightarrow> trim s = []" by (simp only: trim_def dropWhile.simps rev.simps)
    with False have "?a \<noteq> []" by blast
    then have h: "\<not> is_ws (hd ?a)" by (rule hd_dropWhile)
    from a False have "hd ?a = hd (trim s)" by (metis hd_append2)
    with h last show ?thesis by simp
  qed
  from s pre suf ends show ?thesis
    unfolding trimmed_to_def by blast
qed

lemma trimmed_to_unique:
  assumes "trimmed_to s t"
  shows "t = trim s"
proof -
  from assms obtain pre suf where s: "s = pre @ t @ suf"
    and pre: "list_all is_ws pre" and suf: "list_all is_ws suf"
    and ends: "t = [] \<or> \<not> is_ws (hd t) \<and> \<not> is_ws (last t)"
    unfolding trimmed_to_def by blast
  show ?thesis
  proof (cases "t = []")
    case True
    with s pre suf have "list_all is_ws s" by simp
    then have "dropWhile is_ws s = []" by (rule dropWhile_ws_all)
    with True show ?thesis by (simp only: trim_def dropWhile.simps rev.simps)
  next
    case False
    with ends have h: "\<not> is_ws (hd t)" and l: "\<not> is_ws (last t)" by auto
    from False h have "dropWhile is_ws (t @ suf) = t @ suf"
      by (cases t) auto
    with s pre have d: "dropWhile is_ws s = t @ suf"
      by (simp add: dropWhile_ws_append)
    from suf have rsuf: "list_all is_ws (rev suf)" by (simp add: list_all_iff)
    from False l have "dropWhile is_ws (rev t) = rev t"
      by (cases "rev t") (auto simp: last_rev [symmetric] hd_rev)
    with rsuf have "dropWhile is_ws (rev suf @ rev t) = rev t"
      by (simp add: dropWhile_ws_append)
    with d show ?thesis by (simp add: trim_def)
  qed
qed

lemma equal_after_trimming_iff: "equal_after_trimming a e \<longleftrightarrow> trim a = trim e"
  unfolding equal_after_trimming_def
  using trimmed_to_trim trimmed_to_unique by metis

section \<open>The claims\<close>

text \<open>The definitions that evaluate a run in a given world.\<close>

lemmas harness_defs =
  runTests_def runSingleTest_def executeCode_def launch_def getSolutionFile_def
  extensions_def object_prototype_def compareOutput_def record_result_def workspaceDir_def
  dirname_def basename_def trim_def is_ws_def showCode_def showInt_def showNat.simps
  digit_def custom_loop.simps Let_def

lemmas world_defs = scripted_def two_sum_def two_sum_files_def

lemmas report_defs =
  post_test_def generateDiffReport_def detail_of_def generateDiff_def line_at_def
  diff_loop.simps

text \<open>
  A child that ends without taking its input: the write to its stdin fails, nothing
  listens to the error, and the harness dies with the run unfinished.
\<close>

lemma unread_input_kills_harness:
  "runTests deaf_world 0 two_sum_files ''two-sum'' ''javascript'' = Died ''write EPIPE''"
  by (simp add: deaf_world_def harness_defs world_defs)

subsection \<open>C1: no timeout\<close>

text \<open>
  C1 says that a test whose child runs longer than the fixed timeout is killed and
  gets \<open>passed = false\<close> with a timeout error, its output discarded. The harness has
  no timer and never kills a child. In \<open>hour_world\<close> the child of the sample test
  takes its input, prints the expected output at once and exits with code 0 after
  3 600 000 ms: the outcome is a pass, with the output kept and no error.
\<close>

theorem long_running_child_scored_as_pass:
  "exit_event [(0, Stdout ''0 1\<newline>''), (3600000, Close (Some 0))] =
     Some (3600000, Close (Some 0)) \<and>
   runSingleTest hour_world 0 [''app'', ''workspace'', ''two-sum''] ''javascript''
       ''2 7 11 15\<newline>9'' ''0 1'' ''sample'' =
     Returned (\<lparr>t_testName = ''sample'', t_input = ''2 7 11 15\<newline>9'', t_expected = ''0 1'',
                 t_actual = ''0 1'', t_passed = True, t_error = None, t_executionTime = 1\<rparr>, 1)"
  by (simp add: hour_world_def harness_defs world_defs)

text \<open>
  C1, amended: the harness enforces no timeout and never terminates a child. When
  the child of a test raises no error on its stdin and exits with code 0, after
  whatever time \<open>ms\<close>, the outcome is decided by its output: \<open>actual\<close> is the trimmed
  stdout, \<open>passed\<close> holds exactly when that equals the trimmed expected output, and no
  error is set.
\<close>

theorem exit_zero_outcome_ignores_duration:
  assumes "child_of env w problemDir language inp = Some (tr, w')"
    and "\<not> stdin_fails tr"
    and "exit_event tr = Some (ms, Close (Some 0))"
  shows "runSingleTest env w problemDir language inp expected testName =
           Returned (\<lparr>t_testName = testName, t_input = inp, t_expected = expected,
                       t_actual = trim (stdout_before_exit tr),
                       t_passed = (trim (stdout_before_exit tr) = trim expected),
                       t_error = None, t_executionTime = now env w'\<rparr>, w')"
  using assms(1) settle_exit_zero [OF assms(2,3), of "[]" "[]"]
  by (simp add: runSingleTest_child)

text \<open>The amended C1 at a child that answers wrongly after 90 seconds.\<close>

theorem exit_zero_outcome_ignores_duration_witness:
  "child_of (scripted [[(10, Stdout ''1 0''), (90000, Close (Some 0))]]) 0
       [''app'', ''workspace'', ''two-sum''] ''python'' ''2 7 11 15\<newline>9'' =
     Some ([(10, Stdout ''1 0''), (90000, Close (Some 0))], 1) \<and>
   \<not> stdin_fails [(10, Stdout ''1 0''), (90000, Close (Some 0))] \<and>
   exit_event [(10, Stdout ''1 0''), (90000, Close (Some 0))] = Some (90000, Close (Some 0)) \<and>
   runSingleTest (scripted [[(10, Stdout ''1 0''), (90000, Close (Some 0))]]) 0
       [''app'', ''workspace'', ''two-sum''] ''python'' ''2 7 11 15\<newline>9'' ''0 1'' ''sample'' =
     Returned (\<lparr>t_testName = ''sample'', t_input = ''2 7 11 15\<newline>9'', t_expected = ''0 1'',
                 t_actual = ''1 0'', t_passed = False, t_error = None, t_executionTime = 1\<rparr>, 1)"
  using exit_zero_outcome_ignores_duration
    [of "scripted [[(10, Stdout ''1 0''), (90000, Close (Some 0))]]" 0
        "[''app'', ''workspace'', ''two-sum'']" "''python''" "''2 7 11 15\<newline>9''"
        "[(10, Stdout ''1 0''), (90000, Close (Some 0))]" 1 90000 "''0 1''" "''sample''"]
  by (simp add: child_of_def harness_defs world_defs)

subsection \<open>C2: when a diff is attached\<close>

text \<open>
  C2 says that \<open>diff\<close> is present if and only if \<open>passed\<close> is false and no error is
  set, so that an outcome with an error never carries a diff. generateDiffReport
  attaches the diff whenever \<open>passed\<close> is false, and an outcome with an error has
  failed: in \<open>failing_world\<close> both outcomes have an error and a diff.
\<close>

theorem error_outcome_carries_diff:
  "post_test failing_world 0 two_sum_files ''two-sum'' ''javascript'' =
     Returned (Inr \<lparr>rp_problemId = ''two-sum'',
                 rp_summary = \<lparr>c_passed = 0, c_failed = 2, c_total = 2\<rparr>,
                 rp_details =
                   [\<lparr>d_testName = ''sample'', d_passed = False, d_input = ''2 7 11 15\<newline>9'',
                      d_expected = ''0 1'', d_actual = [], d_diff = Some ''- 0 1\<newline>+ '',
                      d_error = Some ''Execution failed with code 1: boom''\<rparr>,
                    \<lparr>d_testName = ''custom-0'', d_passed = False, d_input = ''3 3\<newline>6'',
                      d_expected = ''0 1'', d_actual = [], d_diff = Some ''- 0 1\<newline>+ '',
                      d_error = Some ''Failed to start process: spawn node ENOENT''\<rparr>]\<rparr>)"
  by (simp add: failing_world_def report_defs harness_defs world_defs)

text \<open>
  C2, amended: in every report of a run, \<open>diff\<close> is present if and only if \<open>passed\<close>
  is false, whether or not an error is set; an outcome whose error is set has
  \<open>passed\<close> false and carries the diff of its expected output against the empty
  string.
\<close>

theorem diff_present_iff_failed:
  assumes "post_test env w fs problemId language = Returned (Inr rep)"
  shows "list_all (\<lambda>d. (d_diff d \<noteq> None \<longleftrightarrow> \<not> d_passed d) \<and>
                        (d_error d \<noteq> None \<longrightarrow>
                           \<not> d_passed d \<and> d_diff d = Some (generateDiff (d_expected d) [])))
           (rp_details rep)"
proof -
  from assms obtain r where run: "runTests env w fs problemId language = Returned (Inr r)"
    and rep: "rep = generateDiffReport r"
    by (auto simp: post_test_def split: completion.splits sum.splits)
  from runTests_Inr_found [OF run] obtain suite where
    found: "fs (testCasesPath env problemId) = Some suite" by blast
  have "map named_case (rs_tests r) = schedule suite \<and> list_all sound_result (rs_tests r) \<and>
        rs_summary r = counts_of (rs_tests r)"
  proof (rule runTests_results [where fs = fs and P = sound_result, OF found run])
    fix w inp expected testName t w'
    assume "runSingleTest env w (workspaceDir env @ [problemId]) language inp expected testName =
              Returned (t, w')"
    then show "sound_result t" by (rule runSingleTest_sound)
  qed
  then have sound: "list_all sound_result (rs_tests r)" by blast
  have "sound_result t \<Longrightarrow>
          (d_diff (detail_of t) \<noteq> None \<longleftrightarrow> \<not> d_passed (detail_of t)) \<and>
          (d_error (detail_of t) \<noteq> None \<longrightarrow>
             \<not> d_passed (detail_of t) \<and>
             d_diff (detail_of t) = Some (generateDiff (d_expected (detail_of t)) []))" for t
    by (auto simp: sound_result_def detail_of_def split: option.splits if_splits)
  with sound show ?thesis
    by (simp add: rep generateDiffReport_def list_all_iff)
qed

text \<open>
  The amended C2 in \<open>flaky_world\<close>: the sample passes and has no diff, the custom case
  exits with code 1 and has both the error and the diff.
\<close>

theorem diff_present_iff_failed_witness:
  "post_test flaky_world 0 two_sum_files ''two-sum'' ''javascript'' =
     Returned (Inr \<lparr>rp_problemId = ''two-sum'',
                 rp_summary = \<lparr>c_passed = 1, c_failed = 1, c_total = 2\<rparr>,
                 rp_details =
                   [\<lparr>d_testName = ''sample'', d_passed = True, d_input = ''2 7 11 15\<newline>9'',
                      d_expected = ''0 1'', d_actual = ''0 1'', d_diff = None, d_error = None\<rparr>,
                    \<lparr>d_testName = ''custom-0'', d_passed = False, d_input = ''3 3\<newline>6'',
                      d_expected = ''0 1'', d_actual = [],
                      d_diff = Some (generateDiff ''0 1'' []),
                      d_error = Some ''Execution failed with code 1: Traceback''\<rparr>]\<rparr>)"
proof -
  let ?rep = "\<lparr>rp_problemId = ''two-sum'',
                 rp_summary = \<lparr>c_passed = 1, c_failed = 1, c_total = 2\<rparr>,
                 rp_details =
                   [\<lparr>d_testName = ''sample'', d_passed = True, d_input = ''2 7 11 15\<newline>9'',
                      d_expected = ''0 1'', d_actual = ''0 1'', d_diff = None, d_error = None\<rparr>,
                    \<lparr>d_testName = ''custom-0'', d_passed = False, d_input = ''3 3\<newline>6'',
                      d_expected = ''0 1'', d_actual = [],
                      d_diff = Some (generateDiff ''0 1'' []),
                      d_error = Some ''Execution failed with code 1: Traceback''\<rparr>]\<rparr>"
  have run: "post_test flaky_world 0 two_sum_files ''two-sum'' ''javascript'' = Returned (Inr ?rep)"
    by (simp add: flaky_world_def report_defs harness_defs world_defs)
  from diff_present_iff_failed [OF run] run show ?thesis by simp
qed

subsection \<open>C3: a language outside the four\<close>




subsection \<open>C4: addTestCase and empty fields\<close>

text \<open>
  C4 says that addTestCase fails with a validation error when the input or the
  expected output is empty, and then leaves the stored suite unchanged. addTestCase
  checks neither field (only the form in the browser declines to send an empty one):
  called with two empty strings it appends the empty case to \<open>custom\<close>, writes the
  suite and returns it.
\<close>

theorem empty_test_case_is_stored:
  "addTestCase (scripted []) two_sum_files ''two-sum'' [] [] =
     Inr (\<lparr>sample = \<lparr>tc_input = ''2 7 11 15\<newline>9'', tc_expected = ''0 1''\<rparr>,
            custom = [\<lparr>tc_input = ''3 3\<newline>6'', tc_expected = ''0 1''\<rparr>,
                      \<lparr>tc_input = [], tc_expected = []\<rparr>]\<rparr>,
          two_sum_files([''app'', ''workspace'', ''two-sum'', ''test-cases.json''] \<mapsto>
            \<lparr>sample = \<lparr>tc_input = ''2 7 11 15\<newline>9'', tc_expected = ''0 1''\<rparr>,
              custom = [\<lparr>tc_input = ''3 3\<newline>6'', tc_expected = ''0 1''\<rparr>,
                        \<lparr>tc_input = [], tc_expected = []\<rparr>]\<rparr>))"
  by (simp add: addTestCase_def workspaceDir_def Let_def world_defs)

text \<open>
  C4, amended: addTestCase validates nothing. For every input and expected output,
  empty or not, when the suite of the problem exists it appends the case to the end
  of \<open>custom\<close>, leaves \<open>sample\<close> and the earlier custom cases as they are, writes the
  suite back and returns it.
\<close>

theorem addTestCase_appends_any_case:
  assumes "fs (testCasesPath env problemId) = Some suite"
  shows "addTestCase env fs problemId inp expected =
           Inr (suite\<lparr>custom := custom suite @ [\<lparr>tc_input = inp, tc_expected = expected\<rparr>]\<rparr>,
                fs(testCasesPath env problemId \<mapsto>
                   suite\<lparr>custom := custom suite @ [\<lparr>tc_input = inp, tc_expected = expected\<rparr>]\<rparr>))"
  using assms by (simp add: addTestCase_def testCasesPath_def Let_def)

text \<open>The amended C4 for a second custom case of two-sum.\<close>

theorem addTestCase_appends_any_case_witness:
  "two_sum_files (testCasesPath (scripted []) ''two-sum'') = Some two_sum \<and>
   addTestCase (scripted []) two_sum_files ''two-sum'' ''3 2 4\<newline>6'' ''1 2'' =
     Inr (two_sum\<lparr>custom := custom two_sum @ [\<lparr>tc_input = ''3 2 4\<newline>6'', tc_expected = ''1 2''\<rparr>]\<rparr>,
          two_sum_files(testCasesPath (scripted []) ''two-sum'' \<mapsto>
            two_sum\<lparr>custom := custom two_sum @ [\<lparr>tc_input = ''3 2 4\<newline>6'', tc_expected = ''1 2''\<rparr>]\<rparr>))"
proof -
  have f: "two_sum_files (testCasesPath (scripted []) ''two-sum'') = Some two_sum"
    by (simp add: testCasesPath_def workspaceDir_def world_defs)
  from f addTestCase_appends_any_case [where fs = two_sum_files, OF f] show ?thesis by blast
qed

subsection \<open>C5: the summary counts the details\<close>

text \<open>
  C5: in the report of every run, \<open>total\<close> is \<open>passed + failed\<close> and the length of
  \<open>details\<close>; \<open>passed\<close> counts the details that passed and \<open>failed\<close> those that did
  not, so each test is counted once. The report has the summary and the tests of the
  results of runTests.
\<close>

theorem summary_counts_details:
  assumes "runTests env w fs problemId language = Returned (Inr r)"
  shows "c_total (rp_summary (generateDiffReport r)) =
           c_passed (rp_summary (generateDiffReport r)) + c_failed (rp_summary (generateDiffReport r)) \<and>
         c_total (rp_summary (generateDiffReport r)) = length (rp_details (generateDiffReport r)) \<and>
         c_passed (rp_summary (generateDiffReport r)) =
           length (filter d_passed (rp_details (generateDiffReport r))) \<and>
         c_failed (rp_summary (generateDiffReport r)) =
           length (filter (\<lambda>d. \<not> d_passed d) (rp_details (generateDiffReport r))) \<and>
         rs_summary r = rp_summary (generateDiffReport r) \<and>
         length (rs_tests r) = length (rp_details (generateDiffReport r))"
proof -
  from runTests_Inr_found [OF assms] obtain suite where
    found: "fs (testCasesPath env problemId) = Some suite" by blast
  have "rs_summary r = counts_of (rs_tests r)"
    using runTests_results [where fs = fs and P = "\<lambda>t. True", OF found assms] by simp
  moreover have "length (filter t_passed ts) + length (filter (\<lambda>t. \<not> t_passed t) ts) = length ts"
    for ts :: "test_result list"
    by (induction ts) auto
  moreover have "filter d_passed (map detail_of ts) = map detail_of (filter t_passed ts)" for ts
    by (induction ts) (auto simp: detail_of_def)
  moreover have "filter (\<lambda>d. \<not> d_passed d) (map detail_of ts) =
                 map detail_of (filter (\<lambda>t. \<not> t_passed t) ts)" for ts
    by (induction ts) (auto simp: detail_of_def)
  ultimately show ?thesis
    by (simp add: generateDiffReport_def counts_of_def)
qed

text \<open>C5 in \<open>mixed_world\<close>: one test passes, one fails, the total is 2.\<close>

theorem summary_counts_details_witness:
  "runTests mixed_world 0 two_sum_files ''two-sum'' ''javascript'' =
     Returned (Inr \<lparr>rs_problemId = ''two-sum'', rs_language = ''javascript'', rs_timestamp = 0,
       rs_tests =
         [\<lparr>t_testName = ''sample'', t_input = ''2 7 11 15\<newline>9'', t_expected = ''0 1'',
            t_actual = ''0 1'', t_passed = True, t_error = None, t_executionTime = 1\<rparr>,
          \<lparr>t_testName = ''custom-0'', t_input = ''3 3\<newline>6'', t_expected = ''0 1'',
            t_actual = ''1 0'', t_passed = False, t_error = None, t_executionTime = 2\<rparr>],
       rs_summary = \<lparr>c_passed = 1, c_failed = 1, c_total = 2\<rparr>\<rparr>) \<and>
   c_total (rp_summary (generateDiffReport
     \<lparr>rs_problemId = ''two-sum'', rs_language = ''javascript'', rs_timestamp = 0,
       rs_tests =
         [\<lparr>t_testName = ''sample'', t_input = ''2 7 11 15\<newline>9'', t_expected = ''0 1'',
            t_actual = ''0 1'', t_passed = True, t_error = None, t_executionTime = 1\<rparr>,
          \<lparr>t_testName = ''custom-0'', t_input = ''3 3\<newline>6'', t_expected = ''0 1'',
            t_actual = ''1 0'', t_passed = False, t_error = None, t_executionTime = 2\<rparr>],
       rs_summary = \<lparr>c_passed = 1, c_failed = 1, c_total = 2\<rparr>\<rparr>)) = 2"
proof -
  let ?r = "\<lparr>rs_problemId = ''two-sum'', rs_language = ''javascript'', rs_timestamp = 0,
       rs_tests =
         [\<lparr>t_testName = ''sample'', t_input = ''2 7 11 15\<newline>9'', t_expected = ''0 1'',
            t_actual = ''0 1'', t_passed = True, t_error = None, t_executionTime = 1\<rparr>,
          \<lparr>t_testName = ''custom-0'', t_input = ''3 3\<newline>6'', t_expected = ''0 1'',
            t_actual = ''1 0'', t_passed = False, t_error = None, t_executionTime = 2\<rparr>],
       rs_summary = \<lparr>c_passed = 1, c_failed = 1, c_total = 2\<rparr>\<rparr>"
  have run: "runTests mixed_world 0 two_sum_files ''two-sum'' ''javascript'' = Returned (Inr ?r)"
    by (simp add: mixed_world_def harness_defs world_defs)
  from summary_counts_details [OF run]
  have "c_total (rp_summary (generateDiffReport ?r)) = length (rp_details (generateDiffReport ?r))"
    by blast
  then have "c_total (rp_summary (generateDiffReport ?r)) = 2"
    by (simp add: generateDiffReport_def)
  with run show ?thesis by blast
qed

subsection \<open>C6: the comparison\<close>

text \<open>
  C6: the comparison holds exactly when the two strings are equal after trimming the
  leading and trailing white space of each whole string, and nothing else is
  normalised. compareOutput is plain equality and runSingleTest applies it to the
  trimmed output and the trimmed expected output: when the execution resolves with
  \<open>out\<close>, \<open>passed\<close> is that comparison, and it holds exactly when \<open>out\<close> and \<open>expected\<close>
  are equal after trimming in the sense of \<open>equal_after_trimming\<close>.
\<close>

theorem passed_iff_equal_after_trimming:
  assumes "executeCode env w (getSolutionFile problemDir language) language inp =
             (Returned (Inr out), w')"
  shows "map_completion (t_passed \<circ> fst)
           (runSingleTest env w problemDir language inp expected testName) =
           Returned (compareOutput (trim out) (trim expected)) \<and>
         compareOutput (trim out) (trim expected) = equal_after_trimming out expected"
  using assms
  by (simp add: runSingleTest_def Let_def compareOutput_def equal_after_trimming_iff)

text \<open>C6 for an output with white space around the expected answer.\<close>

theorem passed_iff_equal_after_trimming_witness:
  "executeCode (scripted [[(0, Stdout ''  0 1\<newline>''), (7, Close (Some 0))]]) 0
       (getSolutionFile [''app'', ''workspace'', ''two-sum''] ''python'') ''python''
       ''2 7 11 15\<newline>9'' =
     (Returned (Inr ''  0 1\<newline>''), 1) \<and>
   map_completion (t_passed \<circ> fst)
     (runSingleTest (scripted [[(0, Stdout ''  0 1\<newline>''), (7, Close (Some 0))]]) 0
        [''app'', ''workspace'', ''two-sum''] ''python'' ''2 7 11 15\<newline>9'' ''0 1'' ''sample'') =
     Returned True \<and>
   equal_after_trimming ''  0 1\<newline>'' ''0 1''"
  using passed_iff_equal_after_trimming
    [of "scripted [[(0, Stdout ''  0 1\<newline>''), (7, Close (Some 0))]]" 0
        "[''app'', ''workspace'', ''two-sum'']" "''python''" "''2 7 11 15\<newline>9''"
        "''  0 1\<newline>''" 1 "''0 1''" "''sample''"]
  by (simp add: harness_defs world_defs)

text \<open>
  White space at the end of an inner line, the case of a letter, the form of a
  number and the white space between two words all count.
\<close>

lemma comparison_is_strict:
  "\<not> equal_after_trimming ''1 \<newline>2'' ''1\<newline>2''"
  "\<not> equal_after_trimming ''Yes'' ''yes''"
  "\<not> equal_after_trimming ''1.0'' ''1''"
  "\<not> equal_after_trimming ''0  1'' ''0 1''"
  by (simp_all add: equal_after_trimming_iff trim_def is_ws_def)

subsection \<open>C7: which outcomes, in which order\<close>

text \<open>
  C7: a run that returns, for a suite with k custom cases, has exactly k outcomes plus
  one when the input of the sample is not empty: the outcome named \<open>sample\<close> first in
  that case, then the custom cases in stored order under the names \<open>custom-0\<close> to
  \<open>custom-(k-1)\<close>, each outcome with the input and the expected output of its case.
\<close>

theorem outcomes_follow_schedule:
  assumes "fs (testCasesPath env problemId) = Some suite"
    and "runTests env w fs problemId language = Returned (Inr r)"
  shows "length (rs_tests r) =
           length (custom suite) + (if tc_input (sample suite) \<noteq> [] then 1 else 0) \<and>
         map t_testName (rs_tests r) =
           (if tc_input (sample suite) \<noteq> [] then [''sample''] else []) @
           map (\<lambda>i. ''custom-'' @ showNat i) [0..<length (custom suite)] \<and>
         map named_case (rs_tests r) = schedule suite"
proof -
  have named: "map named_case (rs_tests r) = schedule suite"
    using runTests_results [where fs = fs and P = "\<lambda>t. True", OF assms] by simp
  have "map t_testName (rs_tests r) = map fst (map named_case (rs_tests r))"
    by (simp add: named_case_def comp_def)
  then have names: "map t_testName (rs_tests r) = map fst (schedule suite)"
    by (simp only: named)
  have "length (rs_tests r) = length (map named_case (rs_tests r))" by simp
  then have len: "length (rs_tests r) = length (schedule suite)"
    by (simp only: named)
  from names len named show ?thesis
    by (simp add: schedule_def comp_def)
qed

text \<open>C7 for the suite of two-sum, which has a sample and one custom case.\<close>

theorem outcomes_follow_schedule_witness:
  "two_sum_files (testCasesPath mixed_world ''two-sum'') = Some two_sum \<and>
   runTests mixed_world 0 two_sum_files ''two-sum'' ''cpp'' =
     Returned (Inr \<lparr>rs_problemId = ''two-sum'', rs_language = ''cpp'', rs_timestamp = 0,
       rs_tests =
         [\<lparr>t_testName = ''sample'', t_input = ''2 7 11 15\<newline>9'', t_expected = ''0 1'',
            t_actual = ''0 1'', t_passed = True, t_error = None, t_executionTime = 1\<rparr>,
          \<lparr>t_testName = ''custom-0'', t_input = ''3 3\<newline>6'', t_expected = ''0 1'',
            t_actual = ''1 0'', t_passed = False, t_error = None, t_executionTime = 2\<rparr>],
       rs_summary = \<lparr>c_passed = 1, c_failed = 1, c_total = 2\<rparr>\<rparr>) \<and>
   schedule two_sum =
     [(''sample'', \<lparr>tc_input = ''2 7 11 15\<newline>9'', tc_expected = ''0 1''\<rparr>),
      (''custom-0'', \<lparr>tc_input = ''3 3\<newline>6'', tc_expected = ''0 1''\<rparr>)]"
proof -
  let ?r = "\<lparr>rs_problemId = ''two-sum'', rs_language = ''cpp'', rs_timestamp = 0,
       rs_tests =
         [\<lparr>t_testName = ''sample'', t_input = ''2 7 11 15\<newline>9'', t_expected = ''0 1'',
            t_actual = ''0 1'', t_passed = True, t_error = None, t_executionTime = 1\<rparr>,
          \<lparr>t_testName = ''custom-0'', t_input = ''3 3\<newline>6'', t_expected = ''0 1'',
            t_actual = ''1 0'', t_passed = False, t_error = None, t_executionTime = 2\<rparr>],
       rs_summary = \<lparr>c_passed = 1, c_failed = 1, c_total = 2\<rparr>\<rparr>"
  have f: "two_sum_files (testCasesPath mixed_world ''two-sum'') = Some two_sum"
    by (simp add: testCasesPath_def workspaceDir_def mixed_world_def world_defs)
  have run: "runTests mixed_world 0 two_sum_files ''two-sum'' ''cpp'' = Returned (Inr ?r)"
    by (simp add: mixed_world_def harness_defs world_defs)
  from outcomes_follow_schedule [where fs = two_sum_files, OF f run]
  have "map named_case (rs_tests ?r) = schedule two_sum" by blast
  then have "schedule two_sum =
     [(''sample'', \<lparr>tc_input = ''2 7 11 15\<newline>9'', tc_expected = ''0 1''\<rparr>),
      (''custom-0'', \<lparr>tc_input = ''3 3\<newline>6'', tc_expected = ''0 1''\<rparr>)]"
    by (simp add: named_case_def)
  with f run show ?thesis by blast
qed

subsection \<open>C8: the diff\<close>

text \<open>
  C8: generateDiff splits both strings on newline, pads the shorter sequence of lines
  with empty strings to the longer length, emits for each index the line prefixed by
  two spaces when the two lines are the same and otherwise the expected line
  prefixed by \<open>- \<close> followed by the actual line prefixed by \<open>+ \<close>, and joins the
  emitted lines by newlines in index order: the loop of the source computes
  \<open>diff_spec\<close>.
\<close>

theorem generateDiff_refines_spec: "generateDiff expected actual = diff_spec expected actual"
  by (simp add: generateDiff_def diff_spec_def Let_def diff_loop_eq map2_pad_lines)

lemma generateDiff_examples:
  "generateDiff ''0 1'' ''0 2'' = ''- 0 1\<newline>+ 0 2''"
  "generateDiff ''a\<newline>b'' ''a'' = ''  a\<newline>- b\<newline>+ ''"
  by (simp_all add: generateDiff_def line_at_def diff_loop.simps)

subsection \<open>C9: failures of one test and the rest of the run\<close>




subsection \<open>C10: the output of a failed execution\<close>

text \<open>
  C10: when the execution of a test case fails with an error (the child cannot be
  started, it exits with a code other than 0, or the language is not supported), the
  outcome that runSingleTest returns has the empty string as \<open>actual\<close>, whatever the
  child has printed before; the outcome has failed and has an error, and its entry in
  the report carries the diff of the expected output against the empty string.
\<close>

theorem failed_execution_discards_output:
  assumes "execution_fails env w problemDir language inp"
    and "runSingleTest env w problemDir language inp expected testName = Returned (t, w')"
  shows "t_actual t = [] \<and> \<not> t_passed t \<and> t_error t \<noteq> None \<and>
         d_actual (detail_of t) = [] \<and>
         d_diff (detail_of t) = Some (generateDiff expected [])"
proof -
  from runSingleTest_named [OF assms(2)] have fields: "t_input t = inp" "t_expected t = expected"
    by (simp_all add: named_case_def)
  from runSingleTest_reflects [OF assms(2)] assms(1) fields
  have "\<not> t_passed t \<and> t_error t \<noteq> None \<and> t_actual t = []"
    by (simp add: reflects_def)
  with fields show ?thesis by (simp add: detail_of_def)
qed

text \<open>
  C10 for a child that prints the right answer and then exits with code 1: the answer
  is not in the outcome.
\<close>

theorem failed_execution_discards_output_witness:
  "execution_fails failing_world 0 [''app'', ''workspace'', ''two-sum''] ''javascript''
     ''2 7 11 15\<newline>9'' \<and>
   runSingleTest failing_world 0 [''app'', ''workspace'', ''two-sum''] ''javascript''
       ''2 7 11 15\<newline>9'' ''0 1'' ''sample'' =
     Returned (\<lparr>t_testName = ''sample'', t_input = ''2 7 11 15\<newline>9'', t_expected = ''0 1'',
                 t_actual = [], t_passed = False,
                 t_error = Some ''Execution failed with code 1: boom'',
                 t_executionTime = 1\<rparr>, 1) \<and>
   d_diff (detail_of \<lparr>t_testName = ''sample'', t_input = ''2 7 11 15\<newline>9'', t_expected = ''0 1'',
                 t_actual = [], t_passed = False,
                 t_error = Some ''Execution failed with code 1: boom'',
                 t_executionTime = 1\<rparr>) = Some (generateDiff ''0 1'' [])"
proof -
  let ?t = "\<lparr>t_testName = ''sample'', t_input = ''2 7 11 15\<newline>9'', t_expected = ''0 1'',
                 t_actual = [], t_passed = False,
                 t_error = Some ''Execution failed with code 1: boom'',
                 t_executionTime = 1\<rparr>"
  have h: "execution_fails failing_world 0 [''app'', ''workspace'', ''two-sum''] ''javascript''
             ''2 7 11 15\<newline>9''"
    by (simp add: execution_fails_def child_of_def failing_world_def harness_defs world_defs)
  have r: "runSingleTest failing_world 0 [''app'', ''workspace'', ''two-sum''] ''javascript''
             ''2 7 11 15\<newline>9'' ''0 1'' ''sample'' = Returned (?t, 1)"
    by (simp add: failing_world_def harness_defs world_defs)
  from h r failed_execution_discards_output [OF h r] show ?thesis by blast
qed

end
